theory Spec2Isabelle
  imports Main "HOL-Library.Word"
begin

unbundle bit_operations_syntax

section \<open>Save/load chunk handlers for airports (src/saveload/airport\_sl.cpp)\<close>

text \<open>
  The override managers that the four handlers hand to
  \<^verbatim>\<open>Save_NewGRFMapping\<close> / \<^verbatim>\<open>Load_NewGRFMapping\<close>.
\<close>

datatype OverrideManager = airport_mngr | airporttile_mngr

text \<open>
  The four static procedures of airport\_sl.cpp. A procedure pointer in the table is
  \<open>Some p\<close>, the \<^verbatim>\<open>NULL\<close> pointer is \<open>None\<close>.
\<close>

datatype ChunkProc = Save_APID | Load_APID | Save_ATID | Load_ATID

text \<open>Which manager each procedure passes on, as written in the four bodies.\<close>

fun proc_mapping :: "ChunkProc \<Rightarrow> OverrideManager" where
  "proc_mapping Save_APID = airport_mngr"
| "proc_mapping Load_APID = airport_mngr"
| "proc_mapping Save_ATID = airporttile_mngr"
| "proc_mapping Load_ATID = airporttile_mngr"

text \<open>
  \<^verbatim>\<open>struct ChunkHandler\<close> is declared in saveload.h, which is not part of the
  sources at hand; the table initialises six positions per entry, named here after
  their position and use. The type of the flags field is left open; the table below
  fills it with machine words of some width \<open>'f\<close>.
\<close>

record 'w ChunkHandler =
  ch_id :: "32 word"
  ch_save_proc :: "ChunkProc option"
  ch_load_proc :: "ChunkProc option"
  ch_ptrs_proc :: "ChunkProc option"
  ch_load_check_proc :: "ChunkProc option"
  ch_flags :: 'w

text \<open>
  A four-character constant such as \<^verbatim>\<open>'ATID'\<close>: the characters are packed
  most significant first, one byte each (the value GCC, Clang and MSVC give it).
\<close>

definition multichar :: "string \<Rightarrow> 32 word" where
  "multichar s = foldl (\<lambda>acc c. push_bit 8 acc OR of_char c) 0 s"

text \<open>
  The table \<^verbatim>\<open>_airport_chunk_handlers\<close>. The constants \<^verbatim>\<open>CH_ARRAY\<close> and
  \<^verbatim>\<open>CH_LAST\<close> come from saveload.h and are parameters of the model.
\<close>

definition airport_chunk_handlers :: "'f::len word \<Rightarrow> 'f word \<Rightarrow> 'f word ChunkHandler list" where
  "airport_chunk_handlers CH_ARRAY CH_LAST =
    [ \<lparr> ch_id = multichar ''ATID'', ch_save_proc = Some Save_ATID, ch_load_proc = Some Load_ATID,
        ch_ptrs_proc = None, ch_load_check_proc = None, ch_flags = CH_ARRAY \<rparr>,
      \<lparr> ch_id = multichar ''APID'', ch_save_proc = Some Save_APID, ch_load_proc = Some Load_APID,
        ch_ptrs_proc = None, ch_load_check_proc = None, ch_flags = CH_ARRAY OR CH_LAST \<rparr> ]"


section \<open>Sprite allocation helper (src/blitter/blitter.h)\<close>

text \<open>
  \<^verbatim>\<open>SpriteLoader::Sprite\<close> and the sprite type \<^verbatim>\<open>T\<close> of a blitter are declared
  outside blitter.h; \<^verbatim>\<open>AllocateSprite\<close> only needs that both have the four fields
  below. Both are instances of this record scheme: the extension slot stands for the
  rest of each structure, and the field types \<open>'u\<close>, \<open>'s\<close> are left open.
\<close>

record ('u, 's) SpriteDims =
  height :: 'u
  width :: 'u
  x_offs :: 's
  y_offs :: 's

text \<open>A pointer: null, or the address of an object.\<close>

datatype pointer = NullPtr | Addr nat

text \<open>
  Memory, as far as \<^verbatim>\<open>AllocateSprite\<close> reaches it: the loader sprites (objects of type
  \<^verbatim>\<open>SpriteLoader::Sprite\<close>, here \<open>'l\<close>) and the sprites of the blitter (objects of
  type \<^verbatim>\<open>T\<close>, here \<open>'t\<close>), each by address. The two are objects of different
  types, so a pointer to the one never points into the other. The block behind a non-null
  pointer of the allocator has room for a \<^verbatim>\<open>T\<close>, which is what the caller of
  \<^verbatim>\<open>AllocateSprite\<close> owes for its allocator; the content of a fresh block is whatever
  the memory holds there. The \<^verbatim>\<open>extra\<close> bytes behind the object are not touched by
  \<^verbatim>\<open>AllocateSprite\<close> and have no place in the memory.
\<close>

record ('l, 't) memory =
  loader_sprites :: "nat \<Rightarrow> 'l"
  sprites :: "nat \<Rightarrow> 't"

text \<open>
  \<^verbatim>\<open>AllocatorProc\<close>: takes the requested size (a \<^verbatim>\<open>size_t\<close>, of width \<open>'z\<close>)
  and returns a pointer. It is any function of the program, so it may change all of the
  memory on its way, the loader sprites included.
\<close>

type_synonym ('z, 'l, 't) AllocatorProc =
  "'z word \<Rightarrow> ('l, 't) memory \<Rightarrow> pointer \<times> ('l, 't) memory"

text \<open>Reading or writing through a null pointer has no defined behaviour; the model stops there.\<close>

datatype fault = NullDereference

text \<open>
  \<^verbatim>\<open>Blitter::AllocateSprite<T>\<close>. \<open>sizeof_T\<close> is \<^verbatim>\<open>sizeof(T)\<close>, and
  \<open>sprite\<close> is the pointer to the loader sprite. The sum \<^verbatim>\<open>sizeof(T) + extra\<close> is
  computed in \<^verbatim>\<open>size_t\<close> and wraps. The allocator is called first; the four
  assignments come after it, so they read the loader sprite through \<open>sprite\<close> in the
  memory the allocator left, and they write through the returned pointer without any test.
  The writes go to the sprite of the blitter only, so all four reads see the same loader
  sprite.
\<close>

definition AllocateSprite ::
  "'z::len word \<Rightarrow> pointer
    \<Rightarrow> ('z, ('u, 's, 'l) SpriteDims_scheme, ('u, 's, 't) SpriteDims_scheme) AllocatorProc
    \<Rightarrow> 'z word \<Rightarrow> (('u, 's, 'l) SpriteDims_scheme, ('u, 's, 't) SpriteDims_scheme) memory
    \<Rightarrow> fault + (nat \<times> (('u, 's, 'l) SpriteDims_scheme, ('u, 's, 't) SpriteDims_scheme) memory)" where
  "AllocateSprite sizeof_T sprite allocator extra mem =
    (case allocator (sizeof_T + extra) mem of
       (NullPtr, mem') \<Rightarrow> Inl NullDereference
     | (Addr s, mem') \<Rightarrow>
         (case sprite of
            NullPtr \<Rightarrow> Inl NullDereference
          | Addr p \<Rightarrow>
              Inr (s, mem'\<lparr> sprites := (sprites mem')
                     (s := (sprites mem' s)\<lparr> height := height (loader_sprites mem' p),
                                             width := width (loader_sprites mem' p),
                                             x_offs := x_offs (loader_sprites mem' p),
                                             y_offs := y_offs (loader_sprites mem' p) \<rparr>) \<rparr>)))"


section \<open>Blitting surface (src/blitter/blitter.h)\<close>

text \<open>
  \<^verbatim>\<open>struct Blitter::Surface\<close>: the pixel data behind \<^verbatim>\<open>ptr\<close> (a list of pixels in
  the encoding of the blitter, a type parameter), and the three constant fields. The
  constructor stores its four arguments as they are.
\<close>

record 'p Surface =
  ptr :: "'p list"
  width :: nat
  height :: nat
  pitch :: nat

text \<open>
  The pixel data holds \<^verbatim>\<open>height\<close> lines of \<^verbatim>\<open>pitch\<close> pixels each, and a line
  is at least \<^verbatim>\<open>width\<close> pixels long.
\<close>

definition surface_holds :: "'p Surface \<Rightarrow> bool" where
  "surface_holds s = (width s \<le> pitch s \<and> pitch s * height s \<le> length (ptr s))"

text \<open>The rectangle \<open>(x, y, w, h)\<close> lies within the surface.\<close>

definition rect_in_surface :: "'p Surface \<Rightarrow> int \<Rightarrow> int \<Rightarrow> int \<Rightarrow> int \<Rightarrow> bool" where
  "rect_in_surface s x y w h =
    (0 \<le> x \<and> 0 \<le> y \<and> 0 \<le> w \<and> 0 \<le> h \<and> x + w \<le> int (width s) \<and> y + h \<le> int (height s))"

text \<open>Position of the pixel \<open>(x, y)\<close> in the pixel data: lines are \<^verbatim>\<open>pitch\<close> apart.\<close>

definition pixel_index :: "'p Surface \<Rightarrow> int \<Rightarrow> int \<Rightarrow> nat" where
  "pixel_index s x y = nat y * pitch s + nat x"

text \<open>A geometry outside the surface is a breach of the caller's contract.\<close>

datatype surface_fault = OutsideSurface

text \<open>
  Modelled from the spec: \<^verbatim>\<open>Surface::copy\<close> is pure virtual in blitter.h and the
  blitters that implement it are not among the sources. The spec and the header comment
  have it copy the rectangle at \<open>(x, y)\<close> of the given width and height from the screen to
  a buffer; the buffer is filled line by line, \<open>w\<close> pixels a line. The result is the
  content of the buffer.
\<close>

definition copy_line :: "'p Surface \<Rightarrow> int \<Rightarrow> int \<Rightarrow> nat \<Rightarrow> nat \<Rightarrow> 'p list" where
  "copy_line s x y w j = map (\<lambda>i. ptr s ! pixel_index s (x + int i) (y + int j)) [0..<w]"

definition copy :: "'p Surface \<Rightarrow> int \<Rightarrow> int \<Rightarrow> int \<Rightarrow> int \<Rightarrow> surface_fault + 'p list" where
  "copy s x y w h =
    (if surface_holds s \<and> rect_in_surface s x y w h
     then Inr (concat (map (copy_line s x y (nat w)) [0..<nat h]))
     else Inl OutsideSurface)"

text \<open>
  Modelled from the spec: \<^verbatim>\<open>Surface::paste\<close> is pure virtual in blitter.h and the
  blitters that implement it are not among the sources. The spec and the header comment
  have it copy from a buffer to the rectangle at \<open>(x, y)\<close> of the given width and height
  of the screen; the buffer is read in the layout \<open>copy\<close> writes. A buffer shorter than
  the rectangle is a fault as well.
\<close>

definition paste_line :: "'p Surface \<Rightarrow> 'p list \<Rightarrow> int \<Rightarrow> int \<Rightarrow> nat \<Rightarrow> nat \<Rightarrow> 'p list \<Rightarrow> 'p list" where
  "paste_line s src x y w j px =
    fold (\<lambda>i px. px[pixel_index s (x + int i) (y + int j) := src ! (j * w + i)]) [0..<w] px"

definition paste :: "'p Surface \<Rightarrow> 'p list \<Rightarrow> int \<Rightarrow> int \<Rightarrow> int \<Rightarrow> int \<Rightarrow> surface_fault + 'p Surface" where
  "paste s src x y w h =
    (if surface_holds s \<and> rect_in_surface s x y w h \<and> nat w * nat h \<le> length src
     then Inr (s\<lparr> ptr := fold (paste_line s src x y (nat w)) [0..<nat h] (ptr s) \<rparr>)
     else Inl OutsideSurface)"


section \<open>Properties\<close>

lemma multichar_ATID: "multichar ''ATID'' = 0x41544944"
  by (simp add: multichar_def)

lemma multichar_APID: "multichar ''APID'' = 0x41504944"
  by (simp add: multichar_def)

subsection \<open>The airport chunk handler table\<close>

text \<open>
  Claim C9. The table \<^verbatim>\<open>_airport_chunk_handlers\<close> has exactly two entries, with the
  chunk tags \<^verbatim>\<open>'ATID'\<close> and \<^verbatim>\<open>'APID'\<close> in this order (two different tags). The
  flags of the first entry are \<^verbatim>\<open>CH_ARRAY\<close>, those of the second and final entry are
  \<^verbatim>\<open>CH_ARRAY | CH_LAST\<close>. Whenever \<^verbatim>\<open>CH_LAST\<close> is a non-zero marker that shares
  no bit with \<^verbatim>\<open>CH_ARRAY\<close>, the marker is set in the flags of an entry exactly when the
  entry is the final one.
\<close>

theorem airport_chunk_handlers_table:
  fixes CH_ARRAY CH_LAST :: "'f::len word"
  shows "map ch_id (airport_chunk_handlers CH_ARRAY CH_LAST) = [multichar ''ATID'', multichar ''APID'']
    \<and> multichar ''ATID'' \<noteq> multichar ''APID''
    \<and> map ch_flags (airport_chunk_handlers CH_ARRAY CH_LAST) = [CH_ARRAY, CH_ARRAY OR CH_LAST]
    \<and> (CH_LAST \<noteq> 0 \<and> CH_ARRAY AND CH_LAST = 0 \<longrightarrow>
         (\<forall>i < length (airport_chunk_handlers CH_ARRAY CH_LAST).
            (ch_flags (airport_chunk_handlers CH_ARRAY CH_LAST ! i) AND CH_LAST \<noteq> 0)
              = (i = length (airport_chunk_handlers CH_ARRAY CH_LAST) - 1)))"
proof -
  have ids: "multichar ''ATID'' \<noteq> multichar ''APID''"
    by (simp add: multichar_ATID multichar_APID)
  have last_bit: "(CH_ARRAY OR CH_LAST) AND CH_LAST = CH_LAST"
    by (simp add: bit_eq_iff bit_simps)
  show ?thesis
    using ids last_bit by (auto simp add: airport_chunk_handlers_def less_Suc_eq numeral_2_eq_2)
qed

theorem airport_chunk_handlers_table_witness:
  "(8 :: 8 word) \<noteq> 0 \<and> (1 :: 8 word) AND 8 = 0
   \<and> map ch_flags (airport_chunk_handlers (1 :: 8 word) 8) = [1, 9]
   \<and> ch_flags (airport_chunk_handlers (1 :: 8 word) 8 ! 0) AND 8 = 0
   \<and> ch_flags (airport_chunk_handlers (1 :: 8 word) 8 ! 1) AND 8 \<noteq> 0"
  using airport_chunk_handlers_table [of "1 :: 8 word" 8]
  by (simp add: airport_chunk_handlers_def)


subsection \<open>AllocateSprite\<close>

text \<open>
  An allocator that overwrites the loader sprite on its way (here with zeros) and returns a
  block: the four fields are read after the call, so the new sprite gets the zeros, not
  what the loader sprite held when \<^verbatim>\<open>AllocateSprite\<close> was called.
\<close>

lemma AllocateSprite_reads_after_allocator:
  "\<exists>m. AllocateSprite (8 :: 64 word) (Addr 2)
          (\<lambda>sz m. (Addr 7, m\<lparr> loader_sprites := (loader_sprites m)(2 := \<lparr> SpriteDims.height = 0 :: 16 word, SpriteDims.width = 0, x_offs = 0 :: 16 word, y_offs = 0 \<rparr>) \<rparr>)) 0
          (\<lparr> loader_sprites = \<lambda>_. \<lparr> SpriteDims.height = 3 :: 16 word, SpriteDims.width = 5,
                                      x_offs = - 1 :: 16 word, y_offs = 2 \<rparr>,
              sprites = \<lambda>_. \<lparr> SpriteDims.height = 9 :: 16 word, SpriteDims.width = 9,
                               x_offs = 9 :: 16 word, y_offs = 9 \<rparr> \<rparr>)
        = Inr (7, m)
      \<and> SpriteDims.height (sprites m 7) = 0 \<and> SpriteDims.width (sprites m 7) = 0
      \<and> x_offs (sprites m 7) = 0 \<and> y_offs (sprites m 7) = 0"
  by (simp add: AllocateSprite_def)

text \<open>A null pointer to the loader sprite is a fault as well, after the allocator has run.\<close>

lemma AllocateSprite_null_sprite:
  "AllocateSprite sizeof_T NullPtr allocator extra mem = Inl NullDereference"
  by (simp add: AllocateSprite_def split: prod.split pointer.split)

text \<open>
  Claim C10. When the allocator, asked for \<^verbatim>\<open>sizeof(T) + extra\<close> bytes, returns a
  non-null pointer, \<^verbatim>\<open>AllocateSprite\<close> returns that pointer, and on return the sprite it
  points to has the height, width, x\_offs and y\_offs of the loader sprite; the loader
  sprites, the rest of the new sprite and every other sprite are as the allocator left
  them. The loader sprite is read after the allocator has run: where the allocator leaves
  it as it was at the call, the four fields are those it had at the call. When the allocator
  returns null, the function writes through the null pointer: no test guards the
  assignments.
\<close>

theorem AllocateSprite_copies_dims:
  fixes allocator :: "('z::len, ('u, 's, 'l) SpriteDims_scheme, ('u, 's, 't) SpriteDims_scheme) AllocatorProc"
  shows "(allocator (sizeof_T + extra) mem = (Addr a, mem') \<longrightarrow>
           (\<exists>mem''. AllocateSprite sizeof_T (Addr p) allocator extra mem = Inr (a, mem'')
              \<and> SpriteDims.height (sprites mem'' a) = SpriteDims.height (loader_sprites mem'' p)
              \<and> SpriteDims.width (sprites mem'' a) = SpriteDims.width (loader_sprites mem'' p)
              \<and> x_offs (sprites mem'' a) = x_offs (loader_sprites mem'' p)
              \<and> y_offs (sprites mem'' a) = y_offs (loader_sprites mem'' p)
              \<and> loader_sprites mem'' = loader_sprites mem'
              \<and> SpriteDims.more (sprites mem'' a) = SpriteDims.more (sprites mem' a)
              \<and> (\<forall>b. b \<noteq> a \<longrightarrow> sprites mem'' b = sprites mem' b)
              \<and> (loader_sprites mem' p = loader_sprites mem p \<longrightarrow>
                    SpriteDims.height (sprites mem'' a) = SpriteDims.height (loader_sprites mem p)
                  \<and> SpriteDims.width (sprites mem'' a) = SpriteDims.width (loader_sprites mem p)
                  \<and> x_offs (sprites mem'' a) = x_offs (loader_sprites mem p)
                  \<and> y_offs (sprites mem'' a) = y_offs (loader_sprites mem p))))
       \<and> (allocator (sizeof_T + extra) mem = (NullPtr, mem') \<longrightarrow>
           AllocateSprite sizeof_T (Addr p) allocator extra mem = Inl NullDereference)"
  by (simp add: AllocateSprite_def)

theorem AllocateSprite_copies_dims_witness:
  "(\<exists>m. AllocateSprite (8 :: 64 word) (Addr 2) (\<lambda>sz m. (Addr 7, m)) 0
          (\<lparr> loader_sprites = \<lambda>_. \<lparr> SpriteDims.height = 3 :: 16 word, SpriteDims.width = 5,
                                      x_offs = - 1 :: 16 word, y_offs = 2 \<rparr>,
              sprites = \<lambda>_. \<lparr> SpriteDims.height = 9 :: 16 word, SpriteDims.width = 9,
                               x_offs = 9 :: 16 word, y_offs = 9 \<rparr> \<rparr>)
        = Inr (7, m)
      \<and> SpriteDims.height (sprites m 7) = 3 \<and> SpriteDims.width (sprites m 7) = 5
      \<and> x_offs (sprites m 7) = - 1 \<and> y_offs (sprites m 7) = 2)
   \<and> AllocateSprite (8 :: 64 word) (Addr 2) (\<lambda>sz m. (NullPtr, m)) 0
          (\<lparr> loader_sprites = \<lambda>_. \<lparr> SpriteDims.height = 3 :: 16 word, SpriteDims.width = 5,
                                      x_offs = - 1 :: 16 word, y_offs = 2 \<rparr>,
              sprites = \<lambda>_. \<lparr> SpriteDims.height = 9 :: 16 word, SpriteDims.width = 9,
                               x_offs = 9 :: 16 word, y_offs = 9 \<rparr> \<rparr>)
        = Inl NullDereference"
  using
    AllocateSprite_copies_dims [where allocator = "\<lambda>sz m. (Addr 7, m)" and sizeof_T = "8 :: 64 word"
      and extra = 0 and a = 7 and p = 2
      and mem = "\<lparr> loader_sprites = \<lambda>_. \<lparr> SpriteDims.height = 3 :: 16 word, SpriteDims.width = 5,
                                      x_offs = - 1 :: 16 word, y_offs = 2 \<rparr>,
              sprites = \<lambda>_. \<lparr> SpriteDims.height = 9 :: 16 word, SpriteDims.width = 9,
                               x_offs = 9 :: 16 word, y_offs = 9 \<rparr> \<rparr>"
      and mem' = "\<lparr> loader_sprites = \<lambda>_. \<lparr> SpriteDims.height = 3 :: 16 word, SpriteDims.width = 5,
                                      x_offs = - 1 :: 16 word, y_offs = 2 \<rparr>,
              sprites = \<lambda>_. \<lparr> SpriteDims.height = 9 :: 16 word, SpriteDims.width = 9,
                               x_offs = 9 :: 16 word, y_offs = 9 \<rparr> \<rparr>"]
    AllocateSprite_copies_dims [where allocator = "\<lambda>sz m. (NullPtr, m)" and sizeof_T = "8 :: 64 word"
      and extra = 0 and a = 7 and p = 2
      and mem = "\<lparr> loader_sprites = \<lambda>_. \<lparr> SpriteDims.height = 3 :: 16 word, SpriteDims.width = 5,
                                      x_offs = - 1 :: 16 word, y_offs = 2 \<rparr>,
              sprites = \<lambda>_. \<lparr> SpriteDims.height = 9 :: 16 word, SpriteDims.width = 9,
                               x_offs = 9 :: 16 word, y_offs = 9 \<rparr> \<rparr>"
      and mem' = "\<lparr> loader_sprites = \<lambda>_. \<lparr> SpriteDims.height = 3 :: 16 word, SpriteDims.width = 5,
                                      x_offs = - 1 :: 16 word, y_offs = 2 \<rparr>,
              sprites = \<lambda>_. \<lparr> SpriteDims.height = 9 :: 16 word, SpriteDims.width = 9,
                               x_offs = 9 :: 16 word, y_offs = 9 \<rparr> \<rparr>"]
  by fastforce

subsection \<open>Copy and paste of a rectangle\<close>

text \<open>
  A surface of three lines of three pixels, four pixels apart: copy reads the rectangle,
  paste overwrites it and nothing else, and a rectangle that leaves the surface is refused.
\<close>

lemma copy_example:
  "copy \<lparr> ptr = [10, 11, 12, 13, 20, 21, 22, 23, 30, 31, 32, 33 :: 8 word],
          width = 3, height = 3, pitch = 4 \<rparr> 1 1 2 2 = Inr [21, 22, 31, 32]"
  by code_simp

lemma paste_example:
  "paste \<lparr> ptr = [10, 11, 12, 13, 20, 21, 22, 23, 30, 31, 32, 33 :: 8 word],
           width = 3, height = 3, pitch = 4 \<rparr> [1, 2, 3, 4] 1 1 2 2
     = Inr \<lparr> ptr = [10, 11, 12, 13, 20, 1, 2, 23, 30, 3, 4, 33],
           width = 3, height = 3, pitch = 4 \<rparr>"
  by code_simp

lemma paste_outside_example:
  "paste \<lparr> ptr = [10, 11, 12, 13, 20, 21, 22, 23, 30, 31, 32, 33 :: 8 word],
           width = 3, height = 3, pitch = 4 \<rparr> [1, 2, 3, 4] 2 1 2 2 = Inl OutsideSurface"
  by (simp add: paste_def surface_holds_def rect_in_surface_def)

lemma nth_concat_lines:
  assumes "\<And>j. j < h \<Longrightarrow> length (f j) = w" and "j < h" and "i < w"
  shows "concat (map f [0..<h]) ! (j * w + i) = f j ! i"
  using assms
proof (induction h)
  case 0
  then show ?case by simp
next
  case (Suc h)
  have len: "length (concat (map f [0..<h])) = h * w"
    using Suc.prems(1) by (induction h) (simp_all add: less_Suc_eq)
  show ?case
  proof (cases "j < h")
    case True
    then have "j * w + i < h * w"
      using Suc.prems(3)
      by (metis Suc_leI add_less_cancel_left less_le_trans mult_Suc mult_le_mono1 add.commute)
    with True Suc show ?thesis by (simp add: nth_append len)
  next
    case False
    with Suc.prems have "j = h" by simp
    then show ?thesis by (simp add: nth_append len)
  qed
qed

lemma copy_nth:
  assumes "j < h" and "i < w"
  shows "concat (map (copy_line s x y w) [0..<h]) ! (j * w + i)
          = ptr s ! pixel_index s (x + int i) (y + int j)"
proof -
  have "concat (map (copy_line s x y w) [0..<h]) ! (j * w + i) = copy_line s x y w j ! i"
    using assms by (intro nth_concat_lines) (simp_all add: copy_line_def)
  then show ?thesis using assms by (simp add: copy_line_def)
qed

lemma copy_length: "length (concat (map (copy_line s x y w) [0..<h])) = h * w"
  by (induction h) (simp_all add: copy_line_def)

lemma paste_line_same:
  assumes "\<And>i. i < w \<Longrightarrow> src ! (j * w + i) = px ! pixel_index s (x + int i) (y + int j)"
  shows "paste_line s src x y w j px = px"
proof -
  have "n \<le> w \<Longrightarrow>
      fold (\<lambda>i px. px[pixel_index s (x + int i) (y + int j) := src ! (j * w + i)]) [0..<n] px = px" for n
    by (induction n) (simp_all add: assms)
  then show ?thesis by (simp add: paste_line_def)
qed

lemma paste_lines_same:
  assumes "\<And>i j. j < h \<Longrightarrow> i < w \<Longrightarrow> src ! (j * w + i) = px ! pixel_index s (x + int i) (y + int j)"
  shows "fold (paste_line s src x y w) [0..<h] px = px"
proof -
  have "n \<le> h \<Longrightarrow> fold (paste_line s src x y w) [0..<n] px = px" for n
    by (induction n) (simp_all add: assms paste_line_same)
  then show ?thesis by simp
qed

text \<open>
  Claim C5. For every surface whose pixel data holds its lines, and every rectangle within
  the surface: copy succeeds, and pasting the buffer it filled at the same rectangle
  succeeds and gives back the surface as it was before the copy, pixel for pixel.
\<close>

theorem paste_copy_identity:
  assumes "surface_holds s" and "rect_in_surface s x y w h"
  shows "\<exists>buf. copy s x y w h = Inr buf \<and> paste s buf x y w h = Inr s"
proof -
  let ?buf = "concat (map (copy_line s x y (nat w)) [0..<nat h])"
  have c: "copy s x y w h = Inr ?buf"
    using assms by (simp add: copy_def)
  have "fold (paste_line s ?buf x y (nat w)) [0..<nat h] (ptr s) = ptr s"
    by (rule paste_lines_same) (simp add: copy_nth)
  then have "paste s ?buf x y w h = Inr s"
    using assms by (simp add: paste_def copy_length mult.commute)
  with c show ?thesis by blast
qed

theorem paste_copy_identity_witness:
  "surface_holds \<lparr> ptr = [10, 11, 12, 13, 20, 21, 22, 23, 30, 31, 32, 33 :: 8 word],
                    width = 3, height = 3, pitch = 4 \<rparr>
   \<and> rect_in_surface \<lparr> ptr = [10, 11, 12, 13, 20, 21, 22, 23, 30, 31, 32, 33 :: 8 word],
                    width = 3, height = 3, pitch = 4 \<rparr> 1 1 2 2
   \<and> (\<exists>buf. copy \<lparr> ptr = [10, 11, 12, 13, 20, 21, 22, 23, 30, 31, 32, 33 :: 8 word],
                    width = 3, height = 3, pitch = 4 \<rparr> 1 1 2 2 = Inr buf
          \<and> paste \<lparr> ptr = [10, 11, 12, 13, 20, 21, 22, 23, 30, 31, 32, 33 :: 8 word],
                    width = 3, height = 3, pitch = 4 \<rparr> buf 1 1 2 2
              = Inr \<lparr> ptr = [10, 11, 12, 13, 20, 21, 22, 23, 30, 31, 32, 33 :: 8 word],
                    width = 3, height = 3, pitch = 4 \<rparr>)"
proof -
  have a: "surface_holds \<lparr> ptr = [10, 11, 12, 13, 20, 21, 22, 23, 30, 31, 32, 33 :: 8 word],
                    width = 3, height = 3, pitch = 4 \<rparr>"
    by (simp add: surface_holds_def)
  have b: "rect_in_surface \<lparr> ptr = [10, 11, 12, 13, 20, 21, 22, 23, 30, 31, 32, 33 :: 8 word],
                    width = 3, height = 3, pitch = 4 \<rparr> 1 1 2 2"
    by (simp add: rect_in_surface_def)
  show ?thesis
    using a b paste_copy_identity [OF a b] by blast
qed

end
